theory Spec2Isabelle
  imports Main
begin

section \<open>Data model (src/types/index.ts)\<close>

text \<open>
  JavaScript strings are modelled as \<^typ>\<open>string\<close>: lists of 8-bit characters, one
  \<^typ>\<open>char\<close> per code unit. Numbers are modelled as \<^typ>\<open>int\<close>: the timestamps
  (milliseconds) and lifetimes (seconds) the SDK computes with are integers far
  inside the range where JavaScript's doubles are exact.
\<close>

text \<open>
  A thrown value: an instance of JavaScript's \<open>Error\<close> with its message, or any other
  thrown value (the provider tells them apart with \<open>instanceof Error\<close>).
\<close>

datatype error = Error (message: string) | Thrown

text \<open>\<open>interface ScalekitConfig\<close>; an optional field is an \<open>option\<close>.\<close>

record ScalekitConfig =
  envUrl :: string
  clientId :: string
  clientSecret :: "string option"
  redirectUri :: "string option"
  scopes :: "string list option"

text \<open>\<open>interface ScalekitTokens\<close>.\<close>

record ScalekitTokens =
  accessToken :: string
  refreshToken :: "string option"
  idToken :: "string option"
  tokenType :: string
  expiresIn :: int
  expiresAt :: int

text \<open>
  JSON values, as \<open>JSON.parse\<close> returns them. An object is the list of its properties
  in enumeration order.
\<close>

datatype json =
    JNull
  | JBool bool
  | JNum int
  | JStr string
  | JArr "json list"
  | JObj "(string \<times> json) list"

text \<open>
  \<open>interface ScalekitUser\<close> is an open bag of claims (\<open>[key: string]: any\<close>): at run
  time it is whatever value \<open>JSON.parse\<close> returned.
\<close>

type_synonym ScalekitUser = json

text \<open>\<open>interface ScalekitAuthState\<close>; \<open>null\<close> is \<open>None\<close>.\<close>

record ScalekitAuthState =
  isLoading :: bool
  isAuthenticated :: bool
  user :: "ScalekitUser option"
  tokens :: "ScalekitTokens option"
  error :: "string option"

text \<open>\<open>interface ScalekitLoginOptions\<close>; \<open>Record<string, string>\<close> is the list of its
  properties in enumeration order.\<close>

record ScalekitLoginOptions =
  organizationId :: "string option"
  connectionId :: "string option"
  extraParams :: "(string \<times> string) list option"

section \<open>The platform the SDK runs on\<close>

text \<open>The three keys of \<open>STORAGE_KEYS\<close>.\<close>

datatype storage_key = TOKENS | USER_INFO | CODE_VERIFIER

fun STORAGE_KEYS :: "storage_key \<Rightarrow> string" where
  "STORAGE_KEYS TOKENS = ''scalekit_tokens''"
| "STORAGE_KEYS USER_INFO = ''scalekit_user_info''"
| "STORAGE_KEYS CODE_VERIFIER = ''pkce_code_verifier''"

text \<open>The result of \<open>WebBrowser.openAuthSessionAsync\<close>: its \<open>type\<close> and, on success, its \<open>url\<close>.\<close>

datatype WebBrowserAuthSessionResult =
    Success (result_url: string)
  | Cancel
  | Dismiss
  | Locked
  | Opened

text \<open>The request \<open>fetch\<close> is called with, and the parts of the response the SDK reads.\<close>

record request =
  req_url :: string
  req_method :: string
  req_content_type :: string
  req_body :: string

text \<open>
  The JSON body of a token response, with the fields the token endpoint documents:
  \<open>access_token, refresh_token?, id_token?, token_type, expires_in\<close>.
\<close>

record token_response =
  access_token :: string
  refresh_token :: "string option"
  id_token :: "string option"
  token_type :: string
  expires_in :: int

record response =
  ok :: bool
  text_body :: "error + string"
  json_body :: "error + token_response"

text \<open>
  Everything outside the SDK that its code reads or changes: the secure store and
  the calls on it that fail, the clock, the crypto provider, the browser session,
  the token endpoint, the requests sent so far, and the platform's URL parser
  (\<open>new URL(u).searchParams.get(k)\<close>, which throws when \<open>u\<close> is not a URL).
\<close>

record world =
  store :: "storage_key \<Rightarrow> string option"
  getItem_throws :: "storage_key \<Rightarrow> error option"
  setItem_throws :: "storage_key \<Rightarrow> error option"
  deleteItem_throws :: "storage_key \<Rightarrow> error option"
  Date_now :: int
  getRandomBytes :: "nat \<Rightarrow> error + string"
  digestString :: "string \<Rightarrow> error + string"
  openAuthSession :: "string \<Rightarrow> string \<Rightarrow> error + WebBrowserAuthSessionResult"
  fetch :: "request \<Rightarrow> error + response"
  requests :: "request list"
  URL_searchParams_get :: "string \<Rightarrow> string \<Rightarrow> error + string option"

subsection \<open>SecureStore\<close>

definition getItemAsync :: "storage_key \<Rightarrow> world \<Rightarrow> error + string option" where
  "getItemAsync k w = (case getItem_throws w k of Some e \<Rightarrow> Inl e | None \<Rightarrow> Inr (store w k))"

definition setItemAsync :: "storage_key \<Rightarrow> string \<Rightarrow> world \<Rightarrow> (error + unit) \<times> world" where
  "setItemAsync k v w =
     (case setItem_throws w k of
        Some e \<Rightarrow> (Inl e, w)
      | None \<Rightarrow> (Inr (), w\<lparr>store := (store w)(k \<mapsto> v)\<rparr>))"

definition deleteItemAsync :: "storage_key \<Rightarrow> world \<Rightarrow> (error + unit) \<times> world" where
  "deleteItemAsync k w =
     (case deleteItem_throws w k of
        Some e \<Rightarrow> (Inl e, w)
      | None \<Rightarrow> (Inr (), w\<lparr>store := (store w)(k := None)\<rparr>))"

section \<open>JavaScript built-ins used by the SDK\<close>

subsection \<open>String functions\<close>

text \<open>\<open>s.split(sep)\<close> for a one-character separator: never empty, one more part than separators.\<close>

fun split :: "char \<Rightarrow> string \<Rightarrow> string list" where
  "split sep [] = [[]]"
| "split sep (c # cs) =
     (if c = sep then [] # split sep cs
      else (case split sep cs of p # ps \<Rightarrow> (c # p) # ps | [] \<Rightarrow> [[c]]))"

text \<open>\<open>s.replace(/a/g, b)\<close> for single characters.\<close>

definition replace_all :: "char \<Rightarrow> char \<Rightarrow> string \<Rightarrow> string" where
  "replace_all a b s = map (\<lambda>c. if c = a then b else c) s"

text \<open>\<open>parts.join(sep)\<close>.\<close>

fun join :: "string \<Rightarrow> string list \<Rightarrow> string" where
  "join sep [] = []"
| "join sep [x] = x"
| "join sep (x # y # ys) = x @ sep @ join sep (y # ys)"

definition is_digit :: "char \<Rightarrow> bool" where
  "is_digit c = (48 \<le> (of_char c :: nat) \<and> (of_char c :: nat) \<le> 57)"

definition digit_value :: "char \<Rightarrow> nat" where
  "digit_value c = of_char c - 48"

definition hex_value :: "char \<Rightarrow> nat option" where
  "hex_value c =
     (let n = (of_char c :: nat) in
      if 48 \<le> n \<and> n \<le> 57 then Some (n - 48)
      else if 65 \<le> n \<and> n \<le> 70 then Some (n - 55)
      else if 97 \<le> n \<and> n \<le> 102 then Some (n - 87)
      else None)"

subsection \<open>Base64: \<open>btoa\<close> and \<open>atob\<close>\<close>

definition b64_char :: "nat \<Rightarrow> char" where
  "b64_char n =
     (if n < 26 then char_of (n + 65)
      else if n < 52 then char_of (n + 71)
      else if n < 62 then char_of (n - 4)
      else if n = 62 then CHR ''+'' else CHR ''/'')"

definition b64_value :: "char \<Rightarrow> nat option" where
  "b64_value c =
     (let n = (of_char c :: nat) in
      if 65 \<le> n \<and> n \<le> 90 then Some (n - 65)
      else if 97 \<le> n \<and> n \<le> 122 then Some (n - 71)
      else if 48 \<le> n \<and> n \<le> 57 then Some (n + 4)
      else if c = CHR ''+'' then Some 62
      else if c = CHR ''/'' then Some 63
      else None)"

text \<open>\<open>btoa\<close> on a binary string: three bytes give four characters, the rest is padded.\<close>

fun btoa :: "string \<Rightarrow> string" where
  "btoa [] = []"
| "btoa [a] =
     (let x = (of_char a :: nat) in
      [b64_char (x div 4), b64_char ((x mod 4) * 16), CHR ''='', CHR ''=''])"
| "btoa [a, b] =
     (let x = (of_char a :: nat); y = (of_char b :: nat) in
      [b64_char (x div 4), b64_char ((x mod 4) * 16 + y div 16),
       b64_char ((y mod 16) * 4), CHR ''=''])"
| "btoa (a # b # c # rest) =
     (let x = (of_char a :: nat); y = (of_char b :: nat); z = (of_char c :: nat) in
      [b64_char (x div 4), b64_char ((x mod 4) * 16 + y div 16),
       b64_char ((y mod 16) * 4 + z div 64), b64_char (z mod 64)] @ btoa rest)"

text \<open>
  The bytes of a list of 6-bit values: four give three bytes; at the end three give two
  bytes and two give one (the bits left over are dropped).
\<close>

fun sextets_bytes :: "nat list \<Rightarrow> string" where
  "sextets_bytes (a # b # c # d # rest) =
     [char_of (a * 4 + b div 16), char_of ((b mod 16) * 16 + c div 4), char_of ((c mod 4) * 64 + d)]
       @ sextets_bytes rest"
| "sextets_bytes [a, b, c] = [char_of (a * 4 + b div 16), char_of ((b mod 16) * 16 + c div 4)]"
| "sextets_bytes [a, b] = [char_of (a * 4 + b div 16)]"
| "sextets_bytes _ = []"

definition is_ascii_whitespace :: "char \<Rightarrow> bool" where
  "is_ascii_whitespace c = ((of_char c :: nat) \<in> {9, 10, 12, 13, 32})"

text \<open>Removes one or two trailing \<open>=\<close> when the string ends with them.\<close>

definition strip_padding :: "string \<Rightarrow> string" where
  "strip_padding d =
     (case rev d of
        x # y # r \<Rightarrow>
          if x = CHR ''='' \<and> y = CHR ''='' then rev r
          else if x = CHR ''='' then rev (y # r) else d
      | [x] \<Rightarrow> if x = CHR ''='' then [] else d
      | [] \<Rightarrow> d)"

text \<open>
  \<open>atob\<close> (the forgiving base64 decoding of the HTML standard): \<open>None\<close> when it throws.
\<close>

definition atob :: "string \<Rightarrow> string option" where
  "atob s =
     (let d = filter (\<lambda>c. \<not> is_ascii_whitespace c) s;
          d' = (if length d mod 4 = 0 then strip_padding d else d)
      in if length d' mod 4 = 1 then None
         else map_option sextets_bytes (those (map b64_value d')))"

subsection \<open>\<open>JSON.parse\<close>\<close>

datatype jtoken =
    TLBrace | TRBrace | TLBracket | TRBracket | TColon | TComma
  | TString string | TNumber int | TTrue | TFalse | TNull

text \<open>The character a one-letter escape stands for.\<close>

definition unescape :: "char \<Rightarrow> char option" where
  "unescape e =
     (if e = CHR 0x22 then Some (CHR 0x22)
      else if e = CHR 0x5C then Some (CHR 0x5C)
      else if e = CHR ''/'' then Some (CHR ''/'')
      else if e = CHR ''b'' then Some (CHR 0x08)
      else if e = CHR ''f'' then Some (CHR 0x0C)
      else if e = CHR ''n'' then Some (CHR 0x0A)
      else if e = CHR ''r'' then Some (CHR 0x0D)
      else if e = CHR ''t'' then Some (CHR 0x09)
      else None)"

definition hex4 :: "char \<Rightarrow> char \<Rightarrow> char \<Rightarrow> char \<Rightarrow> int option" where
  "hex4 a b c d =
     (case (hex_value a, hex_value b, hex_value c, hex_value d) of
        (Some x, Some y, Some z, Some u) \<Rightarrow> Some (((int x * 16 + int y) * 16 + int z) * 16 + int u)
      | _ \<Rightarrow> None)"

text \<open>
  An escape sequence after its backslash: the character it stands for and the input after
  it. The model's characters are 8-bit, so \<open>\uXXXX\<close> above \<open>00FF\<close> has no value here.
\<close>

definition lex_escape :: "string \<Rightarrow> (char \<times> string) option" where
  "lex_escape s =
     (case s of
        [] \<Rightarrow> None
      | e # cs \<Rightarrow>
          if e = CHR ''u'' then
            (case cs of
               h1 # h2 # h3 # h4 # cs' \<Rightarrow>
                 (case hex4 h1 h2 h3 h4 of
                    Some n \<Rightarrow> if n < 256 then Some (char_of n, cs') else None
                  | None \<Rightarrow> None)
             | _ \<Rightarrow> None)
          else map_option (\<lambda>x. (x, cs)) (unescape e))"

lemma lex_escape_shorter:
  "lex_escape s = Some (x, rest) \<Longrightarrow> length rest < length s"
  by (auto simp: lex_escape_def split: list.splits option.splits if_splits)

text \<open>
  The rest of a string literal after its opening quote: the string and the input after the
  closing quote.
\<close>

function lex_string :: "string \<Rightarrow> string \<Rightarrow> (string \<times> string) option" where
  "lex_string acc [] = None"
| "lex_string acc (c # cs) =
     (if c = CHR 0x22 then Some (rev acc, cs)
      else if c = CHR 0x5C then
        (case lex_escape cs of
           Some (x, rest) \<Rightarrow> lex_string (x # acc) rest
         | None \<Rightarrow> None)
      else if (of_char c :: nat) < 32 then None
      else lex_string (c # acc) cs)"
  by pat_completeness auto
termination
  by (relation "measure (\<lambda>(acc, s). length s)") (auto dest: lex_escape_shorter)

text \<open>
  A number literal of the model: \<open>-?(0|[1-9][0-9]*)\<close>, not followed by a fraction or an
  exponent. Numbers are integers here, so a literal with a fraction or an exponent has
  no value in the model and is not accepted.
\<close>

definition lex_number :: "string \<Rightarrow> (int \<times> string) option" where
  "lex_number s =
     (let neg = (case s of c # _ \<Rightarrow> c = CHR ''-'' | [] \<Rightarrow> False);
          r = (if neg then tl s else s);
          ds = takeWhile is_digit r;
          rest = dropWhile is_digit r;
          n = foldl (\<lambda>a c. 10 * a + int (digit_value c)) 0 ds
      in if ds = [] then None
         else if hd ds = CHR ''0'' \<and> length ds > 1 then None
         else if (case rest of c # _ \<Rightarrow> c \<in> set ''.eE'' | [] \<Rightarrow> False) then None
         else Some (if neg then - n else n, rest))"

lemma lex_string_shorter:
  "lex_string acc s = Some (r, rest) \<Longrightarrow> length rest < length s"
proof (induction acc s rule: lex_string.induct)
  case (1 acc)
  then show ?case by simp
next
  case (2 acc c cs)
  show ?case
  proof (cases "lex_escape cs")
    case None
    with 2 show ?thesis by (auto split: if_splits)
  next
    case (Some p)
    obtain x rest' where p: "p = (x, rest')" by (cases p)
    from Some p have "length rest' < length cs" by (auto dest: lex_escape_shorter)
    with 2 Some p show ?thesis by (fastforce split: if_splits)
  qed
qed

lemma lex_number_shorter:
  assumes "lex_number s = Some (n, rest)"
  shows "length rest < length s"
proof -
  define r where "r = (if (case s of c # _ \<Rightarrow> c = CHR ''-'' | [] \<Rightarrow> False) then tl s else s)"
  from assms have ds: "takeWhile is_digit r \<noteq> []" and rest: "rest = dropWhile is_digit r"
    by (auto simp: lex_number_def Let_def r_def split: if_splits)
  have "length (takeWhile is_digit r) + length (dropWhile is_digit r) = length r"
    by (metis length_append takeWhile_dropWhile_id)
  moreover have "length r \<le> length s"
    by (simp add: r_def)
  ultimately show ?thesis
    using ds rest by (cases "takeWhile is_digit r") auto
qed

definition punctuation :: "char \<Rightarrow> jtoken option" where
  "punctuation c =
     (if c = CHR ''{'' then Some TLBrace
      else if c = CHR ''}'' then Some TRBrace
      else if c = CHR ''['' then Some TLBracket
      else if c = CHR '']'' then Some TRBracket
      else if c = CHR '':'' then Some TColon
      else if c = CHR '','' then Some TComma
      else None)"

text \<open>JSON white space: space, tab, line feed, carriage return.\<close>

definition is_json_whitespace :: "char \<Rightarrow> bool" where
  "is_json_whitespace c = ((of_char c :: nat) \<in> {32, 9, 10, 13})"

function lex :: "string \<Rightarrow> jtoken list option" where
  "lex [] = Some []"
| "lex (c # cs) =
     (if is_json_whitespace c then lex cs
      else if punctuation c \<noteq> None then
        (case punctuation c of Some t \<Rightarrow> map_option (Cons t) (lex cs) | None \<Rightarrow> None)
      else if c = CHR 0x22 then
        (case lex_string [] cs of
           Some (str, rest) \<Rightarrow> map_option (Cons (TString str)) (lex rest)
         | None \<Rightarrow> None)
      else if c = CHR ''-'' \<or> is_digit c then
        (case lex_number (c # cs) of
           Some (n, rest) \<Rightarrow> map_option (Cons (TNumber n)) (lex rest)
         | None \<Rightarrow> None)
      else if take 4 (c # cs) = ''true'' then map_option (Cons TTrue) (lex (drop 3 cs))
      else if take 5 (c # cs) = ''false'' then map_option (Cons TFalse) (lex (drop 4 cs))
      else if take 4 (c # cs) = ''null'' then map_option (Cons TNull) (lex (drop 3 cs))
      else None)"
  by pat_completeness auto
termination
  by (relation "measure length")
     (auto dest: lex_string_shorter lex_number_shorter simp: less_Suc_eq_le)

text \<open>
  The own properties of an object built from the members of an object literal, in
  JavaScript's order: a later member with the same name replaces the value of the earlier
  one in its place; array-index names come first, in ascending order.
\<close>

fun put_property :: "string \<Rightarrow> 'v \<Rightarrow> (string \<times> 'v) list \<Rightarrow> (string \<times> 'v) list" where
  "put_property k v [] = [(k, v)]"
| "put_property k v ((k', v') # ps) =
     (if k' = k then (k, v) # ps else (k', v') # put_property k v ps)"

definition array_index :: "string \<Rightarrow> int option" where
  "array_index k =
     (let n = foldl (\<lambda>a c. 10 * a + int (digit_value c)) 0 k in
      if k \<noteq> [] \<and> list_all is_digit k \<and> (k = ''0'' \<or> hd k \<noteq> CHR ''0'') \<and> n < 4294967295
      then Some n else None)"

definition js_properties :: "(string \<times> 'v) list \<Rightarrow> (string \<times> 'v) list" where
  "js_properties ms =
     (let ps = foldl (\<lambda>acc m. put_property (fst m) (snd m) acc) [] ms in
      sort_key (\<lambda>p. case array_index (fst p) of Some n \<Rightarrow> n | None \<Rightarrow> 0)
        (filter (\<lambda>p. array_index (fst p) \<noteq> None) ps)
      @ filter (\<lambda>p. array_index (fst p) = None) ps)"

text \<open>
  The parser reads the tokens from left to right with a stack of the arrays and objects
  that are still open (their elements and members so far, last first).
\<close>

datatype frame = FArr "json list" | FObj "(string \<times> json) list" | FKey string

datatype pmode = PValue | PArrStart | PObjStart | PKey | PColon | PAfter | PDone json

fun complete :: "json \<Rightarrow> frame list \<Rightarrow> (pmode \<times> frame list) option" where
  "complete v [] = Some (PDone v, [])"
| "complete v (FArr items # st) = Some (PAfter, FArr (v # items) # st)"
| "complete v (FKey k # FObj ms # st) = Some (PAfter, FObj ((k, v) # ms) # st)"
| "complete v _ = None"

fun value_start :: "frame list \<Rightarrow> jtoken \<Rightarrow> (pmode \<times> frame list) option" where
  "value_start st TLBracket = Some (PArrStart, FArr [] # st)"
| "value_start st TLBrace = Some (PObjStart, FObj [] # st)"
| "value_start st (TString s) = complete (JStr s) st"
| "value_start st (TNumber n) = complete (JNum n) st"
| "value_start st TTrue = complete (JBool True) st"
| "value_start st TFalse = complete (JBool False) st"
| "value_start st TNull = complete JNull st"
| "value_start st _ = None"

fun pstep :: "pmode \<Rightarrow> frame list \<Rightarrow> jtoken \<Rightarrow> (pmode \<times> frame list) option" where
  "pstep PValue st t = value_start st t"
| "pstep PArrStart (FArr items # st) t =
     (if t = TRBracket then complete (JArr []) st else value_start (FArr items # st) t)"
| "pstep PObjStart (FObj ms # st) t =
     (case t of
        TRBrace \<Rightarrow> complete (JObj []) st
      | TString k \<Rightarrow> Some (PColon, FKey k # FObj ms # st)
      | _ \<Rightarrow> None)"
| "pstep PKey st t = (case t of TString k \<Rightarrow> Some (PColon, FKey k # st) | _ \<Rightarrow> None)"
| "pstep PColon st t = (if t = TColon then Some (PValue, st) else None)"
| "pstep PAfter (FArr items # st) t =
     (case t of
        TComma \<Rightarrow> Some (PValue, FArr items # st)
      | TRBracket \<Rightarrow> complete (JArr (rev items)) st
      | _ \<Rightarrow> None)"
| "pstep PAfter (FObj ms # st) t =
     (case t of
        TComma \<Rightarrow> Some (PKey, FObj ms # st)
      | TRBrace \<Rightarrow> complete (JObj (js_properties (rev ms))) st
      | _ \<Rightarrow> None)"
| "pstep _ _ _ = None"

fun parse_tokens :: "pmode \<Rightarrow> frame list \<Rightarrow> jtoken list \<Rightarrow> json option" where
  "parse_tokens m st [] = (case m of PDone v \<Rightarrow> Some v | _ \<Rightarrow> None)"
| "parse_tokens m st (t # ts) =
     (case pstep m st t of
        Some (m', st') \<Rightarrow> parse_tokens m' st' ts
      | None \<Rightarrow> None)"

text \<open>\<open>JSON.parse(s)\<close>: \<open>None\<close> when it throws a \<open>SyntaxError\<close>.\<close>

definition JSON_parse :: "string \<Rightarrow> json option" where
  "JSON_parse s = (case lex s of Some ts \<Rightarrow> parse_tokens PValue [] ts | None \<Rightarrow> None)"

subsection \<open>\<open>JSON.stringify\<close>\<close>

function show_digits :: "int \<Rightarrow> string" where
  "show_digits n =
     (if n < 10 then [char_of (n + 48)]
      else show_digits (n div 10) @ [char_of (n mod 10 + 48)])"
  by pat_completeness auto
termination
  by (relation "measure nat") auto

definition show_int :: "int \<Rightarrow> string" where
  "show_int i = (if i < 0 then CHR ''-'' # show_digits (- i) else show_digits i)"

definition hex_digit :: "nat \<Rightarrow> char" where
  "hex_digit n = (if n < 10 then char_of (n + 48) else char_of (n + 87))"

definition quote_char :: "char \<Rightarrow> string" where
  "quote_char c =
     (let n = (of_char c :: nat) in
      if c = CHR 0x22 then [CHR 0x5C, CHR 0x22]
      else if c = CHR 0x5C then [CHR 0x5C, CHR 0x5C]
      else if n = 8 then [CHR 0x5C, CHR ''b'']
      else if n = 9 then [CHR 0x5C, CHR ''t'']
      else if n = 10 then [CHR 0x5C, CHR ''n'']
      else if n = 12 then [CHR 0x5C, CHR ''f'']
      else if n = 13 then [CHR 0x5C, CHR ''r'']
      else if n < 32 then [CHR 0x5C, CHR ''u'', CHR ''0'', CHR ''0'', hex_digit (n div 16), hex_digit (n mod 16)]
      else [c])"

definition quote :: "string \<Rightarrow> string" where
  "quote s = CHR 0x22 # concat (map quote_char s) @ [CHR 0x22]"

fun JSON_stringify :: "json \<Rightarrow> string" where
  "JSON_stringify JNull = ''null''"
| "JSON_stringify (JBool b) = (if b then ''true'' else ''false'')"
| "JSON_stringify (JNum n) = show_int n"
| "JSON_stringify (JStr s) = quote s"
| "JSON_stringify (JArr xs) = ''['' @ join '','' (map JSON_stringify xs) @ '']''"
| "JSON_stringify (JObj ps) =
     ''{'' @ join '','' (map (\<lambda>p. quote (fst p) @ '':'' @ JSON_stringify (snd p)) ps) @ ''}''"


subsection \<open>\<open>URLSearchParams.toString\<close>\<close>

text \<open>
  The \<open>application/x-www-form-urlencoded\<close> serializer: a space is \<open>+\<close>, letters, digits
  and \<open>* - . _\<close> stand for themselves, every other byte of the UTF-8 encoding is
  \<open>%XX\<close>.
\<close>

definition upper_hex_digit :: "nat \<Rightarrow> char" where
  "upper_hex_digit n = (if n < 10 then char_of (n + 48) else char_of (n + 55))"

definition utf8_bytes :: "char \<Rightarrow> nat list" where
  "utf8_bytes c =
     (let n = (of_char c :: nat) in
      if n < 128 then [n] else [192 + n div 64, 128 + n mod 64])"

definition form_encode_byte :: "nat \<Rightarrow> string" where
  "form_encode_byte n =
     (if n = 32 then ''+''
      else if (48 \<le> n \<and> n \<le> 57) \<or> (65 \<le> n \<and> n \<le> 90) \<or> (97 \<le> n \<and> n \<le> 122)
              \<or> n \<in> {42, 45, 46, 95}
      then [char_of n]
      else [CHR ''%'', upper_hex_digit (n div 16), upper_hex_digit (n mod 16)])"

definition form_encode :: "string \<Rightarrow> string" where
  "form_encode s = concat (map form_encode_byte (concat (map utf8_bytes s)))"

definition URLSearchParams_toString :: "(string \<times> string) list \<Rightarrow> string" where
  "URLSearchParams_toString ps =
     join ''&'' (map (\<lambda>p. form_encode (fst p) @ ''='' @ form_encode (snd p)) ps)"

section \<open>ScalekitAuth (the service class)\<close>

text \<open>
  The object the constructor builds: its \<open>config\<close> with \<open>scopes\<close> and \<open>redirectUri\<close>
  filled in (\<open>config.scopes || [...]\<close>, \<open>config.redirectUri || this.getDefaultRedirectUri()\<close>;
  an empty string is falsy, an empty array is not).
\<close>

record ScalekitAuth =
  config_envUrl :: string
  config_clientId :: string
  config_clientSecret :: "string option"
  config_redirectUri :: string
  config_scopes :: "string list"

definition getDefaultRedirectUri :: string where
  "getDefaultRedirectUri = ''exp://localhost:8081/--/auth/callback''"

definition new_ScalekitAuth :: "ScalekitConfig \<Rightarrow> ScalekitAuth" where
  "new_ScalekitAuth config =
     \<lparr>config_envUrl = envUrl config,
      config_clientId = clientId config,
      config_clientSecret = clientSecret config,
      config_redirectUri =
        (case redirectUri config of
           Some r \<Rightarrow> if r = [] then getDefaultRedirectUri else r
         | None \<Rightarrow> getDefaultRedirectUri),
      config_scopes =
        (case scopes config of Some s \<Rightarrow> s | None \<Rightarrow> [''openid'', ''profile'', ''email''])\<rparr>"

definition getEndpoints_authorization :: "ScalekitAuth \<Rightarrow> string" where
  "getEndpoints_authorization this = config_envUrl this @ ''/oauth/authorize''"

definition getEndpoints_token :: "ScalekitAuth \<Rightarrow> string" where
  "getEndpoints_token this = config_envUrl this @ ''/oauth/token''"

subsection \<open>PKCE\<close>

text \<open>\<open>base64URLEncode\<close>: the bytes are the characters of the binary string given to \<open>btoa\<close>.\<close>

definition base64URLEncode :: "string \<Rightarrow> string" where
  "base64URLEncode bytes =
     filter (\<lambda>c. c \<noteq> CHR ''='') (replace_all (CHR ''/'') (CHR ''_'') (replace_all (CHR ''+'') (CHR ''-'') (btoa bytes)))"

text \<open>
  \<open>parseInt(s, 16)\<close>: leading white space, a sign, a \<open>0x\<close> prefix, then the longest run of
  hexadecimal digits; \<open>None\<close> is \<open>NaN\<close>.
\<close>

definition is_js_whitespace :: "char \<Rightarrow> bool" where
  "is_js_whitespace c = ((of_char c :: nat) \<in> {9, 10, 11, 12, 13, 32, 160})"

definition parseInt16 :: "string \<Rightarrow> int option" where
  "parseInt16 s =
     (let s1 = dropWhile is_js_whitespace s;
          neg = (take 1 s1 = ''-'');
          s2 = (if take 1 s1 = ''-'' \<or> take 1 s1 = ''+'' then drop 1 s1 else s1);
          s3 = (if take 2 s2 = ''0x'' \<or> take 2 s2 = ''0X'' then drop 2 s2 else s2);
          ds = takeWhile (\<lambda>c. hex_value c \<noteq> None) s3;
          n = foldl (\<lambda>a c. 16 * a + int (case hex_value c of Some v \<Rightarrow> v | None \<Rightarrow> 0)) 0 ds
      in if ds = [] then None else Some (if neg then - n else n))"

text \<open>
  \<open>hexToBytes\<close>: one element of the \<open>Uint8Array\<close> per two characters (\<open>NaN\<close> is stored as
  0, other values modulo 256); with an odd length the last character finds no element.
\<close>

fun hexToBytes :: "string \<Rightarrow> string" where
  "hexToBytes (a # b # rest) =
     char_of (case parseInt16 [a, b] of Some v \<Rightarrow> v mod 256 | None \<Rightarrow> 0) # hexToBytes rest"
| "hexToBytes _ = []"

definition generateCodeVerifier :: "world \<Rightarrow> error + string" where
  "generateCodeVerifier w =
     (case getRandomBytes w 32 of
        Inl e \<Rightarrow> Inl e
      | Inr randomBytes \<Rightarrow> Inr (base64URLEncode randomBytes))"

definition generateCodeChallenge :: "string \<Rightarrow> world \<Rightarrow> error + string" where
  "generateCodeChallenge verifier w =
     (case digestString w verifier of
        Inl e \<Rightarrow> Inl e
      | Inr digest \<Rightarrow> Inr (base64URLEncode (hexToBytes digest)))"

subsection \<open>login\<close>

text \<open>A string that JavaScript takes for true in a condition: present and not empty.\<close>

fun truthy_string :: "string option \<Rightarrow> bool" where
  "truthy_string None = False"
| "truthy_string (Some s) = (s \<noteq> [])"

text \<open>
  The \<open>params\<close> object: the literal, the two optional assignments, then
  \<open>Object.assign(params, options.extraParams)\<close>.
\<close>

definition login_params ::
  "ScalekitAuth \<Rightarrow> string \<Rightarrow> ScalekitLoginOptions option \<Rightarrow> (string \<times> string) list" where
  "login_params this codeChallenge options =
     (let params = [(''client_id'', config_clientId this),
                    (''redirect_uri'', config_redirectUri this),
                    (''response_type'', ''code''),
                    (''scope'', join '' '' (config_scopes this)),
                    (''code_challenge'', codeChallenge),
                    (''code_challenge_method'', ''S256'')];
          params1 = (if truthy_string (case options of Some opts \<Rightarrow> organizationId opts | None \<Rightarrow> None)
                     then params @ [(''organization_id'',
                            case options of Some opts \<Rightarrow> (case organizationId opts of Some org \<Rightarrow> org | None \<Rightarrow> []) | None \<Rightarrow> [])]
                     else params);
          params2 = (if truthy_string (case options of Some opts \<Rightarrow> connectionId opts | None \<Rightarrow> None)
                     then params1 @ [(''connection_id'',
                            case options of Some opts \<Rightarrow> (case connectionId opts of Some conn \<Rightarrow> conn | None \<Rightarrow> []) | None \<Rightarrow> [])]
                     else params1)
      in (case options of
            Some opts \<Rightarrow>
              (case extraParams opts of
                 Some extra \<Rightarrow> js_properties (params2 @ extra)
               | None \<Rightarrow> params2)
          | None \<Rightarrow> params2))"

text \<open>
  \<open>ScalekitAuth.login\<close>: the \<open>catch\<close> rethrows, so every failure of a step is the failure of
  the call.
\<close>

definition ScalekitAuth_login ::
  "ScalekitAuth \<Rightarrow> ScalekitLoginOptions option \<Rightarrow> world \<Rightarrow> (error + WebBrowserAuthSessionResult) \<times> world" where
  "ScalekitAuth_login this options w =
     (case generateCodeVerifier w of
        Inl e \<Rightarrow> (Inl e, w)
      | Inr codeVerifier \<Rightarrow>
          (case generateCodeChallenge codeVerifier w of
             Inl e \<Rightarrow> (Inl e, w)
           | Inr codeChallenge \<Rightarrow>
               (case setItemAsync CODE_VERIFIER codeVerifier w of
                  (Inl e, w1) \<Rightarrow> (Inl e, w1)
                | (Inr _, w1) \<Rightarrow>
                    (let authUrl = getEndpoints_authorization this @ ''?''
                           @ URLSearchParams_toString (login_params this codeChallenge options)
                     in (openAuthSession w1 authUrl (config_redirectUri this), w1)))))"

subsection \<open>exchangeCodeForTokens\<close>

text \<open>
  \<open>JSON.stringify(tokens)\<close> takes the properties of the object literal in their order and
  leaves out the ones that are \<open>undefined\<close>.
\<close>

definition json_of_tokens :: "ScalekitTokens \<Rightarrow> json" where
  "json_of_tokens t =
     JObj ([(''accessToken'', JStr (accessToken t))]
           @ (case refreshToken t of Some r \<Rightarrow> [(''refreshToken'', JStr r)] | None \<Rightarrow> [])
           @ (case idToken t of Some i \<Rightarrow> [(''idToken'', JStr i)] | None \<Rightarrow> [])
           @ [(''tokenType'', JStr (tokenType t)),
              (''expiresIn'', JNum (expiresIn t)),
              (''expiresAt'', JNum (expiresAt t))])"

text \<open>
  The request to the token endpoint. A client secret that is \<open>undefined\<close> is sent as the
  string \<open>undefined\<close>, which is what \<open>URLSearchParams\<close> makes of it.
\<close>

definition token_request :: "ScalekitAuth \<Rightarrow> string \<Rightarrow> string \<Rightarrow> request" where
  "token_request this code codeVerifier =
     \<lparr>req_url = getEndpoints_token this,
      req_method = ''POST'',
      req_content_type = ''application/x-www-form-urlencoded'',
      req_body = URLSearchParams_toString
        [(''grant_type'', ''authorization_code''),
         (''code'', code),
         (''redirect_uri'', config_redirectUri this),
         (''client_id'', config_clientId this),
         (''client_secret'', (case config_clientSecret this of Some s \<Rightarrow> s | None \<Rightarrow> ''undefined'')),
         (''code_verifier'', codeVerifier)]\<rparr>"

definition exchangeCodeForTokens ::
  "ScalekitAuth \<Rightarrow> string \<Rightarrow> world \<Rightarrow> (error + ScalekitTokens) \<times> world" where
  "exchangeCodeForTokens this code w =
     (case getItemAsync CODE_VERIFIER w of
        Inl e \<Rightarrow> (Inl e, w)
      | Inr codeVerifier \<Rightarrow>
          if \<not> truthy_string codeVerifier
          then (Inl (Error ''Code verifier not found. Please restart the login flow.''), w)
          else
            (let req = token_request this code (case codeVerifier of Some v \<Rightarrow> v | None \<Rightarrow> []);
                 w1 = w\<lparr>requests := requests w @ [req]\<rparr>
             in case fetch w req of
                  Inl e \<Rightarrow> (Inl e, w1)
                | Inr resp \<Rightarrow>
                    if \<not> ok resp then
                      (case text_body resp of
                         Inl e \<Rightarrow> (Inl e, w1)
                       | Inr errorData \<Rightarrow> (Inl (Error (''Token exchange failed: '' @ errorData)), w1))
                    else
                      (case json_body resp of
                         Inl e \<Rightarrow> (Inl e, w1)
                       | Inr data \<Rightarrow>
                           (let tokens = \<lparr>accessToken = access_token data,
                                          refreshToken = refresh_token data,
                                          idToken = id_token data,
                                          tokenType = token_type data,
                                          expiresIn = expires_in data,
                                          expiresAt = Date_now w1 + expires_in data * 1000\<rparr>
                            in case setItemAsync TOKENS (JSON_stringify (json_of_tokens tokens)) w1 of
                                 (Inl e, w2) \<Rightarrow> (Inl e, w2)
                               | (Inr _, w2) \<Rightarrow>
                                   (case deleteItemAsync CODE_VERIFIER w2 of
                                      (Inl e, w3) \<Rightarrow> (Inl e, w3)
                                    | (Inr _, w3) \<Rightarrow> (Inr tokens, w3))))))"

subsection \<open>decodeIdToken and getUserInfo\<close>

text \<open>The body of the \<open>try\<close> in \<open>decodeIdToken\<close>; the errors of \<open>atob\<close> and \<open>JSON.parse\<close> are thrown values.\<close>

definition decodeIdToken_try :: "string \<Rightarrow> error + ScalekitUser" where
  "decodeIdToken_try jwt =
     (let parts = split (CHR ''.'') jwt in
      if length parts \<noteq> 3 then Inl (Error ''Invalid JWT format'')
      else
        (let payload = parts ! 1;
             paddedPayload = payload @ replicate ((4 - length payload mod 4) mod 4) (CHR ''='')
         in case atob (replace_all (CHR ''_'') (CHR ''/'') (replace_all (CHR ''-'') (CHR ''+'') paddedPayload)) of
              None \<Rightarrow> Inl (Error ''InvalidCharacterError'')
            | Some decodedPayload \<Rightarrow>
                (case JSON_parse decodedPayload of
                   None \<Rightarrow> Inl (Error ''SyntaxError'')
                 | Some userInfo \<Rightarrow> Inr userInfo)))"

text \<open>\<open>decodeIdToken\<close>: the \<open>catch\<close> replaces every error of the body by one error.\<close>

definition decodeIdToken :: "string \<Rightarrow> error + ScalekitUser" where
  "decodeIdToken jwt =
     (case decodeIdToken_try jwt of
        Inl e \<Rightarrow> Inl (Error ''Failed to decode user information from id_token'')
      | Inr userInfo \<Rightarrow> Inr userInfo)"

definition getUserInfo :: "string \<Rightarrow> world \<Rightarrow> (error + ScalekitUser) \<times> world" where
  "getUserInfo jwt w =
     (case decodeIdToken jwt of
        Inl e \<Rightarrow> (Inl e, w)
      | Inr userInfo \<Rightarrow>
          (case setItemAsync USER_INFO (JSON_stringify userInfo) w of
             (Inl e, w1) \<Rightarrow> (Inl e, w1)
           | (Inr _, w1) \<Rightarrow> (Inr userInfo, w1)))"

subsection \<open>Reading the store\<close>

text \<open>
  The value \<open>JSON.parse\<close> returned, at the type \<open>ScalekitTokens | null\<close> the method declares:
  \<open>null\<close>, or an object with the fields of the interface. A value that is neither lies
  outside the declared type; the model has no token record for it, and no statement
  below is about such a blob.
\<close>

definition optional_string :: "(string \<times> json) list \<Rightarrow> string \<Rightarrow> string option option" where
  "optional_string ps k =
     (case map_of ps k of
        None \<Rightarrow> Some None
      | Some (JStr s) \<Rightarrow> Some (Some s)
      | Some _ \<Rightarrow> None)"

definition tokens_of_json :: "json \<Rightarrow> ScalekitTokens option" where
  "tokens_of_json j =
     (case j of
        JObj ps \<Rightarrow>
          (case (map_of ps ''accessToken'', optional_string ps ''refreshToken'',
                 optional_string ps ''idToken'', map_of ps ''tokenType'',
                 map_of ps ''expiresIn'', map_of ps ''expiresAt'') of
             (Some (JStr a), Some r, Some i, Some (JStr ty), Some (JNum ei), Some (JNum ea)) \<Rightarrow>
               if list_all (\<lambda>k. k \<in> set [''accessToken'', ''refreshToken'', ''idToken'',
                                          ''tokenType'', ''expiresIn'', ''expiresAt'']) (map fst ps)
               then Some \<lparr>accessToken = a, refreshToken = r, idToken = i, tokenType = ty,
                          expiresIn = ei, expiresAt = ea\<rparr>
               else None
           | _ \<Rightarrow> None)
      | _ \<Rightarrow> None)"

text \<open>The body of the \<open>try\<close> in \<open>getStoredTokens\<close>: an empty string is falsy.\<close>

definition getStoredTokens_try :: "world \<Rightarrow> error + ScalekitTokens option" where
  "getStoredTokens_try w =
     (case getItemAsync TOKENS w of
        Inl e \<Rightarrow> Inl e
      | Inr tokensJson \<Rightarrow>
          if truthy_string tokensJson then
            (case JSON_parse (case tokensJson of Some s \<Rightarrow> s | None \<Rightarrow> []) of
               None \<Rightarrow> Inl (Error ''SyntaxError'')
             | Some j \<Rightarrow> Inr (tokens_of_json j))
          else Inr None)"

text \<open>\<open>getStoredTokens\<close>: the \<open>catch\<close> returns \<open>null\<close>.\<close>

definition getStoredTokens :: "world \<Rightarrow> error + ScalekitTokens option" where
  "getStoredTokens w =
     (case getStoredTokens_try w of
        Inl e \<Rightarrow> Inr None
      | Inr r \<Rightarrow> Inr r)"

definition getStoredUserInfo_try :: "world \<Rightarrow> error + ScalekitUser option" where
  "getStoredUserInfo_try w =
     (case getItemAsync USER_INFO w of
        Inl e \<Rightarrow> Inl e
      | Inr userInfoJson \<Rightarrow>
          if truthy_string userInfoJson then
            (case JSON_parse (case userInfoJson of Some s \<Rightarrow> s | None \<Rightarrow> []) of
               None \<Rightarrow> Inl (Error ''SyntaxError'')
             | Some JNull \<Rightarrow> Inr None
             | Some j \<Rightarrow> Inr (Some j))
          else Inr None)"

definition getStoredUserInfo :: "world \<Rightarrow> error + ScalekitUser option" where
  "getStoredUserInfo w =
     (case getStoredUserInfo_try w of
        Inl e \<Rightarrow> Inr None
      | Inr r \<Rightarrow> Inr r)"

subsection \<open>areTokensExpired and logout\<close>

text \<open>
  \<open>areTokensExpired(tokens)\<close>: \<open>Date.now() >= tokens.expiresAt - 60000\<close>.
\<close>

definition areTokensExpired :: "world \<Rightarrow> ScalekitTokens \<Rightarrow> bool" where
  "areTokensExpired w t = (Date_now w \<ge> expiresAt t - 60000)"

text \<open>
  \<open>ScalekitAuth.logout\<close>: \<open>Promise.all\<close> over the three deletions. All three are started;
  the call fails when one of them fails (with the error of the first in the array that
  failed), and the \<open>catch\<close> rethrows.
\<close>

definition ScalekitAuth_logout :: "world \<Rightarrow> (error + unit) \<times> world" where
  "ScalekitAuth_logout w =
     (case deleteItemAsync TOKENS w of
        (r1, w1) \<Rightarrow>
          (case deleteItemAsync USER_INFO w1 of
             (r2, w2) \<Rightarrow>
               (case deleteItemAsync CODE_VERIFIER w2 of
                  (r3, w3) \<Rightarrow>
                    (case r1 of
                       Inl e \<Rightarrow> (Inl e, w3)
                     | Inr _ \<Rightarrow>
                         (case r2 of
                            Inl e \<Rightarrow> (Inl e, w3)
                          | Inr _ \<Rightarrow>
                              (case r3 of
                                 Inl e \<Rightarrow> (Inl e, w3)
                               | Inr _ \<Rightarrow> (Inr (), w3)))))))"

section \<open>ScalekitProvider (the auth state machine)\<close>

text \<open>The state the provider starts with.\<close>

definition initial_state :: ScalekitAuthState where
  "initial_state = \<lparr>isLoading = True, isAuthenticated = False, user = None, tokens = None, error = None\<rparr>"




text \<open>
  \<open>login\<close>: the body of the \<open>try\<close> after the first \<open>setAuthState\<close>, from the state \<open>s\<close> that
  one has set.
\<close>

definition login_try ::
  "ScalekitAuth \<Rightarrow> ScalekitLoginOptions option \<Rightarrow> ScalekitAuthState \<Rightarrow> world
     \<Rightarrow> (error + ScalekitAuthState) \<times> world" where
  "login_try authService options s w =
     (case ScalekitAuth_login authService options w of
        (Inl e, w1) \<Rightarrow> (Inl e, w1)
      | (Inr result, w1) \<Rightarrow>
          (case result of
             Success url \<Rightarrow>
               if url \<noteq> [] then
                 (case URL_searchParams_get w1 url ''code'' of
                    Inl e \<Rightarrow> (Inl e, w1)
                  | Inr code \<Rightarrow>
                      if \<not> truthy_string code
                      then (Inl (Error ''No authorization code received''), w1)
                      else
                        (case exchangeCodeForTokens authService
                                (case code of Some c \<Rightarrow> c | None \<Rightarrow> []) w1 of
                           (Inl e, w2) \<Rightarrow> (Inl e, w2)
                         | (Inr tks, w2) \<Rightarrow>
                             if \<not> truthy_string (idToken tks)
                             then (Inl (Error ''No id_token received from Scalekit''), w2)
                             else
                               (case getUserInfo (case idToken tks of Some i \<Rightarrow> i | None \<Rightarrow> []) w2 of
                                  (Inl e, w3) \<Rightarrow> (Inl e, w3)
                                | (Inr usr, w3) \<Rightarrow>
                                    (Inr \<lparr>isLoading = False, isAuthenticated = True,
                                          user = Some usr, tokens = Some tks, error = None\<rparr>, w3))))
               else (Inl (Error ''Authentication was not successful''), w1)
           | Cancel \<Rightarrow> (Inr (s\<lparr>isLoading := False, error := None\<rparr>), w1)
           | Dismiss \<Rightarrow> (Inr (s\<lparr>isLoading := False, error := None\<rparr>), w1)
           | _ \<Rightarrow> (Inl (Error ''Authentication was not successful''), w1)))"

definition login ::
  "ScalekitAuth \<Rightarrow> ScalekitLoginOptions option \<Rightarrow> ScalekitAuthState \<Rightarrow> world
     \<Rightarrow> ScalekitAuthState \<times> world" where
  "login authService options prev w =
     (case login_try authService options (prev\<lparr>isLoading := True, error := None\<rparr>) w of
        (Inl e, w1) \<Rightarrow>
          (\<lparr>isLoading = False, isAuthenticated = False, user = None, tokens = None,
            error = Some (case e of Error m \<Rightarrow> m | Thrown \<Rightarrow> ''Login failed'')\<rparr>, w1)
      | (Inr s, w1) \<Rightarrow> (s, w1))"

text \<open>\<open>logout\<close> of the provider.\<close>

definition logout :: "ScalekitAuthState \<Rightarrow> world \<Rightarrow> ScalekitAuthState \<times> world" where
  "logout prev w =
     (case ScalekitAuth_logout w of
        (Inr _, w1) \<Rightarrow>
          (\<lparr>isLoading = False, isAuthenticated = False, user = None, tokens = None,
            error = None\<rparr>, w1)
      | (Inl e, w1) \<Rightarrow>
          ((prev\<lparr>isLoading := True\<rparr>)\<lparr>isLoading := False, error := Some ''Failed to logout''\<rparr>, w1))"

text \<open>\<open>refreshUser\<close>: the first check is outside the \<open>try\<close>, and the \<open>catch\<close> rethrows.\<close>

definition refreshUser ::
  "ScalekitAuthState \<Rightarrow> world \<Rightarrow> (error + ScalekitAuthState) \<times> world" where
  "refreshUser authState w =
     (case tokens authState of
        None \<Rightarrow> (Inl (Error ''No active session''), w)
      | Some t \<Rightarrow>
          if \<not> truthy_string (idToken t) then (Inl (Error ''No active session''), w)
          else
            (case getUserInfo (case idToken t of Some i \<Rightarrow> i | None \<Rightarrow> []) w of
               (Inl e, w1) \<Rightarrow> (Inl e, w1)
             | (Inr usr, w1) \<Rightarrow> (Inr (authState\<lparr>user := Some usr\<rparr>), w1)))"


section \<open>Example worlds\<close>

text \<open>Concrete platforms and stores, for the instances the theorems below are applied to.\<close>

definition example_world :: world where
  "example_world =
     \<lparr>store = (\<lambda>k. None),
      getItem_throws = (\<lambda>k. None),
      setItem_throws = (\<lambda>k. None),
      deleteItem_throws = (\<lambda>k. None),
      Date_now = 1700000000000,
      getRandomBytes = (\<lambda>n. Inr (replicate n (CHR ''A''))),
      digestString = (\<lambda>s. Inr (concat (replicate 32 ''0a''))),
      openAuthSession = (\<lambda>u r. Inr Cancel),
      fetch = (\<lambda>r. Inl (Error ''Network request failed'')),
      requests = [],
      URL_searchParams_get = (\<lambda>u k. Inr None)\<rparr>"

definition example_tokens :: ScalekitTokens where
  "example_tokens =
     \<lparr>accessToken = ''old-access-token'', refreshToken = None, idToken = None,
      tokenType = ''Bearer'', expiresIn = 3600, expiresAt = 1700003600000\<rparr>"

definition example_tokens_blob :: string where
  \<open>example_tokens_blob =
     ''{"accessToken":"old-access-token","tokenType":"Bearer","expiresIn":3600,"expiresAt":1700003600000}''\<close>

definition example_user_blob :: string where
  \<open>example_user_blob = ''{"sub":"u1","email":"a@b.com"}''\<close>

definition stored_session :: world where
  "stored_session =
     example_world\<lparr>store := [TOKENS \<mapsto> example_tokens_blob, USER_INFO \<mapsto> example_user_blob]\<rparr>"

definition example_service :: ScalekitAuth where
  "example_service =
     new_ScalekitAuth \<lparr>envUrl = ''https://env.scalekit.com'', clientId = ''client_1'',
       clientSecret = None, redirectUri = Some ''myapp://auth/callback'', scopes = None\<rparr>"

definition corrupt_store :: world where
  \<open>corrupt_store =
     example_world\<lparr>store := [TOKENS \<mapsto> ''{"accessToken":"old'', USER_INFO \<mapsto> ''{"sub":'']\<rparr>\<close>

definition example_token_response :: token_response where
  "example_token_response =
     \<lparr>access_token = ''new-access-token'', refresh_token = None, id_token = None,
      token_type = ''Bearer'', expires_in = 3600\<rparr>"

definition example_response :: response where
  "example_response = \<lparr>ok = True, text_body = Inr [], json_body = Inr example_token_response\<rparr>"

definition exchange_world :: world where
  "exchange_world =
     example_world\<lparr>store := [CODE_VERIFIER \<mapsto> ''verifier-1''], fetch := (\<lambda>r. Inr example_response)\<rparr>"

definition authenticated_state :: ScalekitAuthState where
  "authenticated_state =
     \<lparr>isLoading = False, isAuthenticated = True,
      user = Some (JObj [(''sub'', JStr ''u1''), (''email'', JStr ''a@b.com'')]),
      tokens = Some example_tokens, error = None\<rparr>"

definition delete_fails :: world where
  "delete_fails =
     stored_session\<lparr>deleteItem_throws :=
       (\<lambda>k. if k = TOKENS then Some (Error ''Could not delete the item'') else None)\<rparr>"






section \<open>The frame of a login\<close>

text \<open>
  What \<open>login\<close> can change in the world: it never touches the platform, it only appends to
  the requests, and the blob under the tokens key is either the one from before or a
  record that an exchange has just written; it is the one from before when no request
  was sent.
\<close>

definition login_frame :: "world \<Rightarrow> world \<Rightarrow> bool" where
  "login_frame w w' \<longleftrightarrow>
     getItem_throws w' = getItem_throws w \<and> setItem_throws w' = setItem_throws w
     \<and> deleteItem_throws w' = deleteItem_throws w \<and> Date_now w' = Date_now w
     \<and> fetch w' = fetch w \<and> URL_searchParams_get w' = URL_searchParams_get w
     \<and> (\<exists>rs. requests w' = requests w @ rs)
     \<and> (store w' TOKENS = store w TOKENS
          \<or> (\<exists>t. store w' TOKENS = Some (JSON_stringify (json_of_tokens t))
                \<and> expiresAt t = Date_now w + expiresIn t * 1000))
     \<and> (requests w' = requests w \<longrightarrow> store w' TOKENS = store w TOKENS)"

section \<open>Auxiliary facts\<close>

subsection \<open>Built-ins\<close>







lemma JSON_parse_empty: "JSON_parse [] = None"
  by (simp add: JSON_parse_def)

lemma all_keys: "(\<forall>k. P k) \<longleftrightarrow> P TOKENS \<and> P USER_INFO \<and> P CODE_VERIFIER"
  by (metis storage_key.exhaust)

lemma ex_keys: "(\<exists>k. P k) \<longleftrightarrow> P TOKENS \<or> P USER_INFO \<or> P CODE_VERIFIER"
  by (metis storage_key.exhaust)

subsection \<open>Reading the store\<close>

lemma getStoredTokens_cases:
  "getStoredTokens w =
     Inr (case getItem_throws w TOKENS of
            Some e \<Rightarrow> None
          | None \<Rightarrow>
              (case store w TOKENS of
                 None \<Rightarrow> None
               | Some s \<Rightarrow> (case JSON_parse s of None \<Rightarrow> None | Some j \<Rightarrow> tokens_of_json j)))"
  by (auto simp: getStoredTokens_def getStoredTokens_try_def getItemAsync_def JSON_parse_empty
      split: option.splits sum.splits)

lemma getStoredUserInfo_cases:
  "getStoredUserInfo w =
     Inr (case getItem_throws w USER_INFO of
            Some e \<Rightarrow> None
          | None \<Rightarrow>
              (case store w USER_INFO of
                 None \<Rightarrow> None
               | Some s \<Rightarrow> (case JSON_parse s of None \<Rightarrow> None | Some JNull \<Rightarrow> None | Some j \<Rightarrow> Some j)))"
  by (auto simp: getStoredUserInfo_def getStoredUserInfo_try_def getItemAsync_def JSON_parse_empty
      split: option.splits sum.splits json.splits)

subsection \<open>Decoding\<close>




subsection \<open>Logout\<close>

lemma ScalekitAuth_logout_store:
  "store (snd (ScalekitAuth_logout w)) k = (if deleteItem_throws w k = None then None else store w k)"
  by (cases k) (auto simp: ScalekitAuth_logout_def deleteItemAsync_def split: option.splits sum.splits)

lemma ScalekitAuth_logout_result:
  "fst (ScalekitAuth_logout w) =
     (case deleteItem_throws w TOKENS of
        Some e \<Rightarrow> Inl e
      | None \<Rightarrow>
          (case deleteItem_throws w USER_INFO of
             Some e \<Rightarrow> Inl e
           | None \<Rightarrow> (case deleteItem_throws w CODE_VERIFIER of Some e \<Rightarrow> Inl e | None \<Rightarrow> Inr ())))"
  by (auto simp: ScalekitAuth_logout_def deleteItemAsync_def split: option.splits sum.splits)

lemma ScalekitAuth_logout_ok:
  "(\<forall>k. deleteItem_throws w k = None) \<Longrightarrow> fst (ScalekitAuth_logout w) = Inr ()"
  by (simp add: ScalekitAuth_logout_result)

lemma ScalekitAuth_logout_fails:
  "\<exists>k. deleteItem_throws w k \<noteq> None \<Longrightarrow> \<exists>e. fst (ScalekitAuth_logout w) = Inl e"
  by (auto simp: ScalekitAuth_logout_result ex_keys split: option.splits)


subsection \<open>Login and its cancellation\<close>

lemma ScalekitAuth_login_result:
  "getRandomBytes w 32 = Inr bytes \<Longrightarrow> digestString w (base64URLEncode bytes) = Inr dg
   \<Longrightarrow> setItem_throws w CODE_VERIFIER = None
   \<Longrightarrow> openAuthSession w = (\<lambda>u r. res)
   \<Longrightarrow> ScalekitAuth_login this opts w
       = (res, w\<lparr>store := (store w)(CODE_VERIFIER \<mapsto> base64URLEncode bytes)\<rparr>)"
  by (simp add: ScalekitAuth_login_def generateCodeVerifier_def generateCodeChallenge_def
      setItemAsync_def Let_def)

lemma login_cancel_state:
  "ScalekitAuth_login authService options w = (Inr r, w1) \<Longrightarrow> r = Cancel \<or> r = Dismiss
   \<Longrightarrow> login authService options prev w = (prev\<lparr>isLoading := False, error := None\<rparr>, w1)"
  by (auto simp: login_def login_try_def)

lemma example_login:
  "ScalekitAuth_login example_service None example_world
     = (Inr Cancel, example_world\<lparr>store := (store example_world)
          (CODE_VERIFIER \<mapsto> base64URLEncode (replicate 32 (CHR ''A'')))\<rparr>)"
  by (rule ScalekitAuth_login_result [where dg = "concat (replicate 32 ''0a'')"])
     (simp_all add: example_world_def)

lemma stored_session_login:
  "ScalekitAuth_login example_service None stored_session
     = (Inr Cancel, stored_session\<lparr>store := (store stored_session)
          (CODE_VERIFIER \<mapsto> base64URLEncode (replicate 32 (CHR ''A'')))\<rparr>)"
  by (rule ScalekitAuth_login_result [where dg = "concat (replicate 32 ''0a'')"])
     (simp_all add: stored_session_def example_world_def)

subsection \<open>Token exchange\<close>

lemma exchange_succeeds:
  assumes "getItem_throws w CODE_VERIFIER = None" "store w CODE_VERIFIER = Some v" "v \<noteq> []"
    "fetch w (token_request this code v) = Inr resp" "ok resp" "json_body resp = Inr data"
    "setItem_throws w TOKENS = None" "deleteItem_throws w CODE_VERIFIER = None"
  shows "exchangeCodeForTokens this code w =
    (Inr \<lparr>accessToken = access_token data, refreshToken = refresh_token data,
           idToken = id_token data, tokenType = token_type data, expiresIn = expires_in data,
           expiresAt = Date_now w + expires_in data * 1000\<rparr>,
     w\<lparr>requests := requests w @ [token_request this code v],
       store := (store w)
         (TOKENS \<mapsto> JSON_stringify (json_of_tokens
            \<lparr>accessToken = access_token data, refreshToken = refresh_token data,
             idToken = id_token data, tokenType = token_type data, expiresIn = expires_in data,
             expiresAt = Date_now w + expires_in data * 1000\<rparr>),
          CODE_VERIFIER := None)\<rparr>)"
  using assms
  by (simp add: exchangeCodeForTokens_def getItemAsync_def setItemAsync_def deleteItemAsync_def Let_def)

lemma exchange_Inr:
  assumes "exchangeCodeForTokens this code w = (Inr t, w')"
  shows "\<exists>v resp data.
     getItem_throws w CODE_VERIFIER = None \<and> store w CODE_VERIFIER = Some v \<and> v \<noteq> []
     \<and> fetch w (token_request this code v) = Inr resp \<and> ok resp \<and> json_body resp = Inr data
     \<and> setItem_throws w TOKENS = None \<and> deleteItem_throws w CODE_VERIFIER = None"
  using assms
  by (auto simp: exchangeCodeForTokens_def getItemAsync_def setItemAsync_def deleteItemAsync_def Let_def
      split: option.splits sum.splits if_splits)

lemma exchange_Inr_props:
  assumes "exchangeCodeForTokens this code w = (Inr t, w')"
  shows "expiresAt t = Date_now w + expiresIn t * 1000"
    and "store w' TOKENS = Some (JSON_stringify (json_of_tokens t))"
    and "store w' CODE_VERIFIER = None"
    and "getItem_throws w' = getItem_throws w"
proof -
  from exchange_Inr [OF assms] obtain v resp data where h:
    "getItem_throws w CODE_VERIFIER = None" "store w CODE_VERIFIER = Some v" "v \<noteq> []"
    "fetch w (token_request this code v) = Inr resp" "ok resp" "json_body resp = Inr data"
    "setItem_throws w TOKENS = None" "deleteItem_throws w CODE_VERIFIER = None"
    by blast
  from exchange_succeeds [OF h] assms
  show "expiresAt t = Date_now w + expiresIn t * 1000"
    and "store w' TOKENS = Some (JSON_stringify (json_of_tokens t))"
    and "store w' CODE_VERIFIER = None"
    and "getItem_throws w' = getItem_throws w"
    by auto
qed

lemma exchange_no_verifier:
  "getItem_throws w CODE_VERIFIER = None \<Longrightarrow> store w CODE_VERIFIER = None \<Longrightarrow>
   exchangeCodeForTokens this code w
     = (Inl (Error ''Code verifier not found. Please restart the login flow.''), w)"
  by (simp add: exchangeCodeForTokens_def getItemAsync_def)

lemma exchange_world_result:
  "exchangeCodeForTokens example_service ''code-1'' exchange_world =
    (Inr \<lparr>accessToken = ''new-access-token'', refreshToken = None, idToken = None,
           tokenType = ''Bearer'', expiresIn = 3600, expiresAt = 1700003600000\<rparr>,
     exchange_world\<lparr>requests := [token_request example_service ''code-1'' ''verifier-1''],
       store := (store exchange_world)
         (TOKENS \<mapsto> JSON_stringify (json_of_tokens
            \<lparr>accessToken = ''new-access-token'', refreshToken = None, idToken = None,
             tokenType = ''Bearer'', expiresIn = 3600, expiresAt = 1700003600000\<rparr>),
          CODE_VERIFIER := None)\<rparr>)"
  by (subst exchange_succeeds [where v = "''verifier-1''" and resp = example_response
        and data = example_token_response])
     (simp_all add: exchange_world_def example_world_def example_response_def
        example_token_response_def)

lemma new_tokens_blob:
  \<open>JSON_stringify (json_of_tokens
      \<lparr>accessToken = ''new-access-token'', refreshToken = None, idToken = None,
       tokenType = ''Bearer'', expiresIn = 3600, expiresAt = 1700003600000\<rparr>)
   = ''{"accessToken":"new-access-token","tokenType":"Bearer","expiresIn":3600,"expiresAt":1700003600000}''\<close>
  by code_simp

subsection \<open>Startup restore\<close>








subsection \<open>What a login changes\<close>

lemma login_frame_refl: "login_frame w w"
  by (simp add: login_frame_def)








subsection \<open>Two failed logins\<close>








section \<open>Expiry policy\<close>

text \<open>
  Claim C3. For every token record and every current time \<open>now\<close>, the record is judged
  expired exactly when \<open>now \<ge> expiresAt - 60000\<close> (milliseconds). In particular a
  record that expires 120000 ms after \<open>now\<close> is not expired, one that expires 30000 ms
  after \<open>now\<close> is expired (inside the buffer), and one that expired 1 ms before
  \<open>now\<close> is expired.
\<close>

theorem C3_expiry_policy:
  "(areTokensExpired (w\<lparr>Date_now := now\<rparr>) t \<longleftrightarrow> now \<ge> expiresAt t - 60000)
   \<and> \<not> areTokensExpired (w\<lparr>Date_now := now\<rparr>) (t\<lparr>expiresAt := now + 120000\<rparr>)
   \<and> areTokensExpired (w\<lparr>Date_now := now\<rparr>) (t\<lparr>expiresAt := now + 30000\<rparr>)
   \<and> areTokensExpired (w\<lparr>Date_now := now\<rparr>) (t\<lparr>expiresAt := now - 1\<rparr>)"
  by (simp add: areTokensExpired_def)

section \<open>Token exchange\<close>

text \<open>
  Claim C4. For every authorization code, \<open>exchangeCodeForTokens\<close> called when the
  secure store holds no PKCE verifier fails with the error "Code verifier not found.
  Please restart the login flow." and leaves the world as it was: no request is sent
  to the token endpoint. Also when the read of the verifier itself throws, the call
  fails and sends no request.
\<close>

theorem C4_missing_verifier:
  "(getItem_throws w CODE_VERIFIER = None \<and> store w CODE_VERIFIER = None
      \<longrightarrow> exchangeCodeForTokens this code w
          = (Inl (Error ''Code verifier not found. Please restart the login flow.''), w))
   \<and> (store w CODE_VERIFIER = None
      \<longrightarrow> (\<exists>e. fst (exchangeCodeForTokens this code w) = Inl e)
          \<and> requests (snd (exchangeCodeForTokens this code w)) = requests w)"
  by (auto simp: exchangeCodeForTokens_def getItemAsync_def split: option.splits)

theorem C4_witness:
  "fst (exchangeCodeForTokens example_service ''code-1'' example_world)
     = Inl (Error ''Code verifier not found. Please restart the login flow.'')
   \<and> requests (snd (exchangeCodeForTokens example_service ''code-1'' example_world)) = []"
proof -
  have a: "getItem_throws example_world CODE_VERIFIER = None \<and> store example_world CODE_VERIFIER = None
           \<and> requests example_world = []"
    by (simp add: example_world_def)
  from C4_missing_verifier [of example_world example_service "''code-1''"] a show ?thesis
    by simp
qed

text \<open>
  Claim C5. Every call of \<open>exchangeCodeForTokens\<close> that returns a token record returns
  one whose absolute expiry is the local time of receipt plus \<open>expires_in * 1000\<close>
  milliseconds, has stored the serialised record under the tokens key and has deleted
  the PKCE verifier, so that an exchange started afterwards fails with "Code verifier
  not found". The call does return a record whenever a non-empty verifier is stored,
  the token endpoint answers with a successful response whose body is a token
  response, and the store accepts the write of the tokens and the deletion of the
  verifier.
\<close>

theorem C5_successful_exchange:
  "(exchangeCodeForTokens this code w = (Inr t, w') \<longrightarrow>
      expiresAt t = Date_now w + expiresIn t * 1000
      \<and> store w' TOKENS = Some (JSON_stringify (json_of_tokens t))
      \<and> store w' CODE_VERIFIER = None
      \<and> fst (exchangeCodeForTokens this code' w')
          = Inl (Error ''Code verifier not found. Please restart the login flow.''))
   \<and> (getItem_throws w CODE_VERIFIER = None \<and> store w CODE_VERIFIER = Some v \<and> v \<noteq> []
       \<and> fetch w (token_request this code v) = Inr resp \<and> ok resp \<and> json_body resp = Inr data
       \<and> setItem_throws w TOKENS = None \<and> deleteItem_throws w CODE_VERIFIER = None
      \<longrightarrow> (\<exists>t1 w1. exchangeCodeForTokens this code w = (Inr t1, w1)
            \<and> accessToken t1 = access_token data
            \<and> expiresIn t1 = expires_in data
            \<and> expiresAt t1 = Date_now w + expires_in data * 1000))"
proof (intro conjI impI)
  assume a: "exchangeCodeForTokens this code w = (Inr t, w')"
  note p = exchange_Inr_props [OF a]
  show "expiresAt t = Date_now w + expiresIn t * 1000" by (rule p)
  show "store w' TOKENS = Some (JSON_stringify (json_of_tokens t))" by (rule p)
  show "store w' CODE_VERIFIER = None" by (rule p)
  from exchange_Inr [OF a] have "getItem_throws w CODE_VERIFIER = None" by blast
  with p(4) have "getItem_throws w' CODE_VERIFIER = None" by simp
  from exchange_no_verifier [OF this p(3)]
  show "fst (exchangeCodeForTokens this code' w')
          = Inl (Error ''Code verifier not found. Please restart the login flow.'')"
    by simp
next
  assume "getItem_throws w CODE_VERIFIER = None \<and> store w CODE_VERIFIER = Some v \<and> v \<noteq> []
       \<and> fetch w (token_request this code v) = Inr resp \<and> ok resp \<and> json_body resp = Inr data
       \<and> setItem_throws w TOKENS = None \<and> deleteItem_throws w CODE_VERIFIER = None"
  then have "exchangeCodeForTokens this code w =
    (Inr \<lparr>accessToken = access_token data, refreshToken = refresh_token data,
           idToken = id_token data, tokenType = token_type data, expiresIn = expires_in data,
           expiresAt = Date_now w + expires_in data * 1000\<rparr>,
     w\<lparr>requests := requests w @ [token_request this code v],
       store := (store w)
         (TOKENS \<mapsto> JSON_stringify (json_of_tokens
            \<lparr>accessToken = access_token data, refreshToken = refresh_token data,
             idToken = id_token data, tokenType = token_type data, expiresIn = expires_in data,
             expiresAt = Date_now w + expires_in data * 1000\<rparr>),
          CODE_VERIFIER := None)\<rparr>)"
    by (intro exchange_succeeds) auto
  then show "\<exists>t1 w1. exchangeCodeForTokens this code w = (Inr t1, w1)
            \<and> accessToken t1 = access_token data
            \<and> expiresIn t1 = expires_in data
            \<and> expiresAt t1 = Date_now w + expires_in data * 1000"
    by simp
qed

theorem C5_witness:
  \<open>getItem_throws exchange_world CODE_VERIFIER = None
   \<and> store exchange_world CODE_VERIFIER = Some ''verifier-1''
   \<and> fetch exchange_world (token_request example_service ''code-1'' ''verifier-1'') = Inr example_response
   \<and> ok example_response \<and> json_body example_response = Inr example_token_response
   \<and> setItem_throws exchange_world TOKENS = None
   \<and> deleteItem_throws exchange_world CODE_VERIFIER = None
   \<and> fst (exchangeCodeForTokens example_service ''code-1'' exchange_world)
     = Inr \<lparr>accessToken = ''new-access-token'', refreshToken = None, idToken = None,
            tokenType = ''Bearer'', expiresIn = 3600, expiresAt = 1700000000000 + 3600 * 1000\<rparr>
   \<and> store (snd (exchangeCodeForTokens example_service ''code-1'' exchange_world)) TOKENS
     = Some ''{"accessToken":"new-access-token","tokenType":"Bearer","expiresIn":3600,"expiresAt":1700003600000}''
   \<and> store (snd (exchangeCodeForTokens example_service ''code-1'' exchange_world)) CODE_VERIFIER = None
   \<and> fst (exchangeCodeForTokens example_service ''code-2''
            (snd (exchangeCodeForTokens example_service ''code-1'' exchange_world)))
     = Inl (Error ''Code verifier not found. Please restart the login flow.'')\<close>
  using C5_successful_exchange [of example_service "''code-1''" exchange_world
      "\<lparr>accessToken = ''new-access-token'', refreshToken = None, idToken = None,
           tokenType = ''Bearer'', expiresIn = 3600, expiresAt = 1700003600000\<rparr>"
      "snd (exchangeCodeForTokens example_service ''code-1'' exchange_world)" "''code-2''"]
    exchange_world_result new_tokens_blob
  by (simp add: exchange_world_def example_world_def example_response_def)

section \<open>Identity decoder\<close>




section \<open>Reads of the store\<close>



text \<open>
  Claim C8, as amended. For every store content the reads of the token record and of
  the user claims return and never throw. They return \<open>null\<close> when the blob is
  missing, and also when the blob is present and \<open>JSON.parse\<close> throws on it, and when
  the read of the store throws: the \<open>catch\<close> of each read turns every error into \<open>null\<close>.
\<close>

theorem C8_reads_never_throw:
  "(\<exists>r. getStoredTokens w = Inr r) \<and> (\<exists>r. getStoredUserInfo w = Inr r)
   \<and> (store w TOKENS = None \<longrightarrow> getStoredTokens w = Inr None)
   \<and> (store w USER_INFO = None \<longrightarrow> getStoredUserInfo w = Inr None)
   \<and> (store w TOKENS = Some s \<and> JSON_parse s = None \<longrightarrow> getStoredTokens w = Inr None)
   \<and> (store w USER_INFO = Some s \<and> JSON_parse s = None \<longrightarrow> getStoredUserInfo w = Inr None)
   \<and> (getItem_throws w TOKENS \<noteq> None \<longrightarrow> getStoredTokens w = Inr None)
   \<and> (getItem_throws w USER_INFO \<noteq> None \<longrightarrow> getStoredUserInfo w = Inr None)"
  by (auto simp: getStoredTokens_cases getStoredUserInfo_cases split: option.splits)

theorem C8_witness:
  "getStoredTokens example_world = Inr None \<and> getStoredUserInfo example_world = Inr None
   \<and> getStoredTokens corrupt_store = Inr None \<and> getStoredUserInfo corrupt_store = Inr None"
proof -
  have a: "store example_world TOKENS = None" "store example_world USER_INFO = None"
    by (simp_all add: example_world_def)
  have b: \<open>store corrupt_store TOKENS = Some ''{"accessToken":"old'' \<and> JSON_parse ''{"accessToken":"old'' = None\<close>
    by code_simp
  have c: \<open>store corrupt_store USER_INFO = Some ''{"sub":'' \<and> JSON_parse ''{"sub":'' = None\<close>
    by code_simp
  from C8_reads_never_throw [of example_world] a
    C8_reads_never_throw [of corrupt_store \<open>''{"accessToken":"old''\<close>] b
    C8_reads_never_throw [of corrupt_store \<open>''{"sub":''\<close>] c
  show ?thesis by blast
qed

text \<open>
  The claim as written fails: on a store whose two blobs are cut off in the middle,
  \<open>JSON.parse\<close> throws and both reads return \<open>null\<close>; no error reaches the caller.
\<close>

theorem C8_counterexample:
  \<open>store corrupt_store TOKENS = Some ''{"accessToken":"old''
   \<and> JSON_parse ''{"accessToken":"old'' = None
   \<and> getStoredTokens corrupt_store = Inr None
   \<and> store corrupt_store USER_INFO = Some ''{"sub":''
   \<and> JSON_parse ''{"sub":'' = None
   \<and> getStoredUserInfo corrupt_store = Inr None\<close>
  by code_simp

section \<open>The auth state machine\<close>

text \<open>
  Claim C1, as amended. \<open>logout\<close> of the provider never throws and always ends with
  \<open>isLoading = false\<close>. When all three deletions succeed, the state is Unauthenticated
  (\<open>isAuthenticated = false\<close>, no user, no tokens, no error) and the three keys are
  cleared. When the deletion throws for one or more keys, the error field is set to
  "Failed to logout" and \<open>isAuthenticated\<close>, \<open>user\<close> and \<open>tokens\<close> keep the values
  they had before the call; the keys whose deletion succeeded are cleared, the others
  keep their blobs.
\<close>

theorem C1_logout:
  "((\<forall>k. deleteItem_throws w k = None) \<longrightarrow>
      fst (logout prev w)
        = \<lparr>isLoading = False, isAuthenticated = False, user = None, tokens = None, error = None\<rparr>
      \<and> (\<forall>k. store (snd (logout prev w)) k = None))
   \<and> ((\<exists>k. deleteItem_throws w k \<noteq> None) \<longrightarrow>
      fst (logout prev w) = prev\<lparr>isLoading := False, error := Some ''Failed to logout''\<rparr>
      \<and> isAuthenticated (fst (logout prev w)) = isAuthenticated prev
      \<and> (\<forall>k. store (snd (logout prev w)) k
               = (if deleteItem_throws w k = None then None else store w k)))"
proof (intro conjI impI)
  assume ok: "\<forall>k. deleteItem_throws w k = None"
  obtain w1 where r: "ScalekitAuth_logout w = (Inr (), w1)"
    using ScalekitAuth_logout_ok [OF ok] by (cases "ScalekitAuth_logout w") auto
  show "fst (logout prev w)
        = \<lparr>isLoading = False, isAuthenticated = False, user = None, tokens = None, error = None\<rparr>"
    by (simp add: logout_def r)
  from r have "snd (logout prev w) = snd (ScalekitAuth_logout w)"
    by (simp add: logout_def)
  with ok show "\<forall>k. store (snd (logout prev w)) k = None"
    by (simp add: ScalekitAuth_logout_store)
next
  assume bad: "\<exists>k. deleteItem_throws w k \<noteq> None"
  obtain e w1 where r: "ScalekitAuth_logout w = (Inl e, w1)"
    using ScalekitAuth_logout_fails [OF bad] by (cases "ScalekitAuth_logout w") auto
  show st: "fst (logout prev w) = prev\<lparr>isLoading := False, error := Some ''Failed to logout''\<rparr>"
    by (simp add: logout_def r)
  show "isAuthenticated (fst (logout prev w)) = isAuthenticated prev"
    by (simp add: st)
  from r have "snd (logout prev w) = snd (ScalekitAuth_logout w)"
    by (simp add: logout_def)
  then show "\<forall>k. store (snd (logout prev w)) k
               = (if deleteItem_throws w k = None then None else store w k)"
    by (simp add: ScalekitAuth_logout_store)
qed

theorem C1_witness:
  "fst (logout authenticated_state stored_session)
     = \<lparr>isLoading = False, isAuthenticated = False, user = None, tokens = None, error = None\<rparr>
   \<and> store (snd (logout authenticated_state stored_session)) TOKENS = None
   \<and> fst (logout authenticated_state delete_fails)
       = authenticated_state\<lparr>isLoading := False, error := Some ''Failed to logout''\<rparr>
   \<and> store (snd (logout authenticated_state delete_fails)) USER_INFO = None
   \<and> store (snd (logout authenticated_state delete_fails)) TOKENS = Some example_tokens_blob"
proof -
  have a: "\<forall>k. deleteItem_throws stored_session k = None"
    by (simp add: stored_session_def example_world_def)
  have b: "\<exists>k. deleteItem_throws delete_fails k \<noteq> None"
    by (rule exI [of _ TOKENS]) (simp add: delete_fails_def)
  have c: "deleteItem_throws delete_fails USER_INFO = None"
    "deleteItem_throws delete_fails TOKENS \<noteq> None"
    "store delete_fails TOKENS = Some example_tokens_blob"
    by (simp_all add: delete_fails_def stored_session_def)
  from C1_logout [of stored_session authenticated_state] a
  have 1: "fst (logout authenticated_state stored_session)
     = \<lparr>isLoading = False, isAuthenticated = False, user = None, tokens = None, error = None\<rparr>
   \<and> store (snd (logout authenticated_state stored_session)) TOKENS = None"
    by blast
  from C1_logout [of delete_fails authenticated_state] b
  have 2: "fst (logout authenticated_state delete_fails)
       = authenticated_state\<lparr>isLoading := False, error := Some ''Failed to logout''\<rparr>"
    and 3: "\<forall>k. store (snd (logout authenticated_state delete_fails)) k
               = (if deleteItem_throws delete_fails k = None then None else store delete_fails k)"
    by blast+
  from 3 c have "store (snd (logout authenticated_state delete_fails)) USER_INFO = None"
    "store (snd (logout authenticated_state delete_fails)) TOKENS = Some example_tokens_blob"
    by simp_all
  with 1 2 show ?thesis by blast
qed

text \<open>
  The claim as written fails: from an authenticated state, when the deletion of the
  tokens key throws, \<open>logout\<close> ends with \<open>isAuthenticated = true\<close> and the error
  "Failed to logout".
\<close>

theorem C1_counterexample:
  "isAuthenticated authenticated_state
   \<and> deleteItem_throws delete_fails TOKENS = Some (Error ''Could not delete the item'')
   \<and> isAuthenticated (fst (logout authenticated_state delete_fails))
   \<and> error (fst (logout authenticated_state delete_fails)) = Some ''Failed to logout''"
  by code_simp




text \<open>
  Claim C9, as amended. For every state, when \<open>login\<close> is invoked and the browser
  session resolves with \<open>cancel\<close> or \<open>dismiss\<close>, the resulting state has
  \<open>isLoading = false\<close> and \<open>error = null\<close>, and \<open>isAuthenticated\<close>, \<open>user\<close> and
  \<open>tokens\<close> are the ones of the state before: a state that was not authenticated
  stays so, an authenticated one stays authenticated.
\<close>

theorem C9_login_cancel:
  "ScalekitAuth_login authService options w = (Inr r, w1) \<and> (r = Cancel \<or> r = Dismiss) \<longrightarrow>
     login authService options prev w = (prev\<lparr>isLoading := False, error := None\<rparr>, w1)
     \<and> isLoading (fst (login authService options prev w)) = False
     \<and> error (fst (login authService options prev w)) = None
     \<and> isAuthenticated (fst (login authService options prev w)) = isAuthenticated prev
     \<and> user (fst (login authService options prev w)) = user prev
     \<and> tokens (fst (login authService options prev w)) = tokens prev"
  by (auto simp: login_cancel_state)

theorem C9_witness:
  "fst (login example_service None initial_state example_world)
     = \<lparr>isLoading = False, isAuthenticated = False, user = None, tokens = None, error = None\<rparr>"
  using C9_login_cancel [of example_service None example_world Cancel
      "example_world\<lparr>store := (store example_world)
          (CODE_VERIFIER \<mapsto> base64URLEncode (replicate 32 (CHR ''A'')))\<rparr>" initial_state]
    example_login
  by (simp add: initial_state_def)

text \<open>
  The claim as written fails: \<open>login\<close> invoked in an authenticated state and cancelled
  in the browser ends with \<open>isAuthenticated = true\<close>.
\<close>

theorem C9_counterexample:
  "isAuthenticated authenticated_state
   \<and> fst (ScalekitAuth_login example_service None stored_session) = Inr Cancel
   \<and> isAuthenticated (fst (login example_service None authenticated_state stored_session))"
  by (simp add: stored_session_login login_cancel_state [OF stored_session_login]
      authenticated_state_def)




end
